theory Spec2Isabelle
  imports Complex_Main
begin

section \<open>Numeric cells\<close>

text \<open>
  A cell of a float column is modelled as an exact real, the missing marker NaN, or one
  of the two infinities that a division by zero produces. Rounding, overflow and signed
  zeros are not modelled.
\<close>

datatype fval = NaN | PInf | NInf | Fin real

fun isna :: "fval \<Rightarrow> bool" where
  "isna NaN = True"
| "isna _ = False"

fun sign_of :: "fval \<Rightarrow> real" where
  "sign_of NaN = 0"
| "sign_of PInf = 1"
| "sign_of NInf = - 1"
| "sign_of (Fin r) = sgn r"

definition inf_of_sign :: "real \<Rightarrow> fval" where
  "inf_of_sign s = (if 0 < s then PInf else if s < 0 then NInf else NaN)"

fun fneg :: "fval \<Rightarrow> fval" where
  "fneg NaN = NaN"
| "fneg PInf = NInf"
| "fneg NInf = PInf"
| "fneg (Fin r) = Fin (- r)"

fun fadd :: "fval \<Rightarrow> fval \<Rightarrow> fval" where
  "fadd NaN _ = NaN"
| "fadd _ NaN = NaN"
| "fadd (Fin a) (Fin b) = Fin (a + b)"
| "fadd PInf NInf = NaN"
| "fadd NInf PInf = NaN"
| "fadd PInf _ = PInf"
| "fadd NInf _ = NInf"
| "fadd (Fin a) b = b"

definition fsub :: "fval \<Rightarrow> fval \<Rightarrow> fval" where
  "fsub a b = fadd a (fneg b)"

fun fmul :: "fval \<Rightarrow> fval \<Rightarrow> fval" where
  "fmul NaN _ = NaN"
| "fmul _ NaN = NaN"
| "fmul (Fin a) (Fin b) = Fin (a * b)"
| "fmul a b = inf_of_sign (sign_of a * sign_of b)"

text \<open>
  Float division never raises: a zero divisor gives NaN for a zero dividend and an
  infinity otherwise.
\<close>

fun fdiv :: "fval \<Rightarrow> fval \<Rightarrow> fval" where
  "fdiv NaN _ = NaN"
| "fdiv _ NaN = NaN"
| "fdiv (Fin a) (Fin b) = (if b = 0 then inf_of_sign (sgn a) else Fin (a / b))"
| "fdiv (Fin a) _ = Fin 0"
| "fdiv a (Fin b) = inf_of_sign (sign_of a * (if b < 0 then - 1 else 1))"
| "fdiv _ _ = NaN"

text \<open>
  The window functions first turn infinite cells into NaN, then aggregate the cells of
  the window that are not NaN.
\<close>

fun prep_values :: "fval \<Rightarrow> real option" where
  "prep_values (Fin r) = Some r"
| "prep_values _ = None"

section \<open>Dates and weekly resampling\<close>

text \<open>
  A timestamp is a day number, day 0 being Thursday 1970-01-01, so that the Fridays are
  the days congruent to 1 modulo 7. \<open>None\<close> is NaT, what \<open>to_datetime\<close> with
  \<open>errors="coerce"\<close> gives for a cell that does not parse. The parser itself belongs to
  the library and is a parameter \<open>to_datetime\<close> of the builders: it maps a column of
  text cells to a column of timestamps.
\<close>

type_synonym date = int

type_synonym 'v series = "(date option \<times> 'v) list"

text \<open>The label of the \<open>W-FRI\<close> bin of a day: the Friday on or after it.\<close>

definition week_label :: "date \<Rightarrow> date" where
  "week_label d = d + (1 - d) mod 7"

text \<open>
  \<open>.sort_values("Date")\<close>: ascending, NaT last. Rows of equal date are kept in input
  order here; the library's default sort leaves their order open, and no property below
  depends on it.
\<close>

fun date_le :: "date option \<Rightarrow> date option \<Rightarrow> bool" where
  "date_le _ None = True"
| "date_le None (Some _) = False"
| "date_le (Some a) (Some b) = (a \<le> b)"

fun insort_date :: "date option \<times> 'v \<Rightarrow> 'v series \<Rightarrow> 'v series" where
  "insort_date r [] = [r]"
| "insort_date r (x # xs) =
     (if date_le (fst r) (fst x) then r # x # xs else x # insort_date r xs)"

definition sort_values :: "'v series \<Rightarrow> 'v series" where
  "sort_values rows = foldr insort_date rows []"

text \<open>\<open>.drop_duplicates("Date")\<close>: the first row of every date is kept.\<close>

fun drop_dups :: "date option list \<Rightarrow> 'v series \<Rightarrow> 'v series" where
  "drop_dups seen [] = []"
| "drop_dups seen (r # rs) =
     (if fst r \<in> set seen then drop_dups seen rs else r # drop_dups (fst r # seen) rs)"

definition drop_duplicates :: "'v series \<Rightarrow> 'v series" where
  "drop_duplicates rows = drop_dups [] rows"

text \<open>\<open>.last()\<close> of a bin: its last cell that is not NaN, NaN when it has none.\<close>

fun last_valid :: "fval list \<Rightarrow> fval" where
  "last_valid [] = NaN"
| "last_valid (x # xs) = (if isna (last_valid xs) then x else last_valid xs)"

text \<open>
  \<open>.set_index("Date").resample("W-FRI").last()\<close>: one row for every weekly bin from the
  bin of the earliest timestamp to the bin of the latest one, labelled by its Friday.
  Rows indexed by NaT belong to no bin. The rows arrive sorted by date.
\<close>

definition bin_rows :: "date \<Rightarrow> fval series \<Rightarrow> fval list" where
  "bin_rows w rows = map snd (filter (\<lambda>r. map_option week_label (fst r) = Some w) rows)"

definition resample_last :: "fval series \<Rightarrow> (date \<times> fval) list" where
  "resample_last rows =
     (let ds = List.map_filter fst rows
      in if ds = [] then []
         else let first = week_label (Min (set ds)); final = week_label (Max (set ds))
              in map (\<lambda>k. let w = first + 7 * int k in (w, last_valid (bin_rows w rows)))
                     [0..<Suc (nat ((final - first) div 7))])"

section \<open>Spot builder (step 2)\<close>

record spot_row =
  AUDUSD_Date :: string
  AUDUSD :: fval
  USDJPY_Date :: string
  USDJPY :: fval

text \<open>
  Lines 62 to 66: the column \<open>Date\<close> is parsed from \<open>AUDUSD_Date\<close>, then both text date
  columns are dropped. What is left of a row is its date and its two prices.
\<close>

definition spot_dated ::
  "(string list \<Rightarrow> date option list) \<Rightarrow> spot_row list \<Rightarrow> (date option \<times> fval \<times> fval) list" where
  "spot_dated to_datetime spot_df =
     map (\<lambda>(d, r). (d, AUDUSD r, USDJPY r))
         (zip (to_datetime (map AUDUSD_Date spot_df)) spot_df)"

text \<open>\<open>.dropna(subset=["Date", "AUDUSD", "USDJPY"])\<close>\<close>

definition spot_dropna :: "(date option \<times> fval \<times> fval) list \<Rightarrow> (date option \<times> fval \<times> fval) list" where
  "spot_dropna rows = filter (\<lambda>(d, a, u). d \<noteq> None \<and> \<not> isna a \<and> \<not> isna u) rows"

text \<open>\<open>AUDJPY_spot = AUDUSD * USDJPY\<close>, row by row.\<close>

definition AUDJPY_spot_col :: "(date option \<times> fval \<times> fval) list \<Rightarrow> fval series" where
  "AUDJPY_spot_col rows = map (\<lambda>(d, a, u). (d, fmul a u)) rows"

definition spot_daily :: "(string list \<Rightarrow> date option list) \<Rightarrow> spot_row list \<Rightarrow> fval series" where
  "spot_daily to_datetime spot_df = AUDJPY_spot_col (spot_dropna (spot_dated to_datetime spot_df))"

definition audjpy_spot_w ::
  "(string list \<Rightarrow> date option list) \<Rightarrow> spot_row list \<Rightarrow> (date \<times> fval) list" where
  "audjpy_spot_w to_datetime spot_df =
     resample_last (drop_duplicates (sort_values (spot_daily to_datetime spot_df)))"

section \<open>Forward builder (step 3)\<close>

record fwdpts_row =
  fwd_Date :: string
  fwd_points_pips :: fval

definition fwdpts_dated :: "(string list \<Rightarrow> date option list) \<Rightarrow> fwdpts_row list \<Rightarrow> fval series" where
  "fwdpts_dated to_datetime fwdpts_df =
     zip (to_datetime (map fwd_Date fwdpts_df)) (map fwd_points_pips fwdpts_df)"

text \<open>\<open>.replace(0.0, np.nan)\<close> on the weekly column.\<close>

definition replace_zero :: "fval \<Rightarrow> fval" where
  "replace_zero v = (if v = Fin 0 then NaN else v)"

definition audjpy_pts_w ::
  "(string list \<Rightarrow> date option list) \<Rightarrow> fwdpts_row list \<Rightarrow> (date \<times> fval) list" where
  "audjpy_pts_w to_datetime fwdpts_df =
     map (\<lambda>(w, v). (w, replace_zero v))
         (resample_last (drop_duplicates (sort_values (fwdpts_dated to_datetime fwdpts_df))))"

text \<open>
  \<open>left.join(right, how="inner")\<close> on the weekly index, which has no duplicate on
  either side: the weeks of the left table that the right table has too.
\<close>

definition join_inner :: "('a \<Rightarrow> date) \<Rightarrow> 'a list \<Rightarrow> (date \<times> 'b) list \<Rightarrow> ('a \<times> 'b) list" where
  "join_inner key l r = List.map_filter (\<lambda>a. map_option (\<lambda>b. (a, b)) (map_of r (key a))) l"

record fwd_week =
  week :: date
  AUDJPY_spot :: fval
  AUDJPY_1M_points_pips :: fval
  AUDJPY_1M_points_price :: fval
  AUDJPY_1M_forward :: fval

text \<open>Lines 105 to 113: the join, the points in price units and the outright forward.\<close>

definition forward_row :: "(date \<times> fval) \<times> fval \<Rightarrow> fwd_week" where
  "forward_row = (\<lambda>((w, s), p).
     let price = fdiv p (Fin 100)
     in \<lparr>week = w, AUDJPY_spot = s, AUDJPY_1M_points_pips = p,
         AUDJPY_1M_points_price = price, AUDJPY_1M_forward = fadd s price\<rparr>)"

definition audjpy_fwd ::
  "(date \<times> fval) list \<Rightarrow> (date \<times> fval) list \<Rightarrow> fwd_week list" where
  "audjpy_fwd spot_w pts_w = map forward_row (join_inner fst spot_w pts_w)"

section \<open>Fear signal (step 4)\<close>

record rr_row =
  rr_Date :: string
  rr_value :: fval

definition rr_dated :: "(string list \<Rightarrow> date option list) \<Rightarrow> rr_row list \<Rightarrow> fval series" where
  "rr_dated to_datetime rr_df = zip (to_datetime (map rr_Date rr_df)) (map rr_value rr_df)"

text \<open>\<open>.dropna()\<close> on the two columns of the risk-reversal table.\<close>

definition rr_dropna :: "fval series \<Rightarrow> fval series" where
  "rr_dropna rows = filter (\<lambda>(d, v). d \<noteq> None \<and> \<not> isna v) rows"

definition audjpy_rr_w ::
  "(string list \<Rightarrow> date option list) \<Rightarrow> rr_row list \<Rightarrow> (date \<times> fval) list" where
  "audjpy_rr_w to_datetime rr_df =
     resample_last (drop_duplicates (sort_values (rr_dropna (rr_dated to_datetime rr_df))))"

record audjpy_week = fwd_week +
  AUDJPY_RR25D :: fval

text \<open>
  Lines 133 to 137: the join with the weekly risk reversals, then
  \<open>.dropna(subset=["AUDJPY_spot", "AUDJPY_1M_forward", "AUDJPY_RR25D"])\<close>.
\<close>

definition with_rr :: "fwd_week \<times> fval \<Rightarrow> audjpy_week" where
  "with_rr = (\<lambda>(r, v).
     \<lparr>week = week r, AUDJPY_spot = AUDJPY_spot r,
      AUDJPY_1M_points_pips = AUDJPY_1M_points_pips r,
      AUDJPY_1M_points_price = AUDJPY_1M_points_price r,
      AUDJPY_1M_forward = AUDJPY_1M_forward r, AUDJPY_RR25D = v\<rparr>)"

definition audjpy_df :: "fwd_week list \<Rightarrow> (date \<times> fval) list \<Rightarrow> audjpy_week list" where
  "audjpy_df fwd rr_w =
     filter (\<lambda>r. \<not> isna (AUDJPY_spot r) \<and> \<not> isna (AUDJPY_1M_forward r) \<and> \<not> isna (AUDJPY_RR25D r))
            (map with_rr (join_inner week fwd rr_w))"

text \<open>The three builders together, from the three loaded tables.\<close>

definition build_audjpy_df ::
  "(string list \<Rightarrow> date option list) \<Rightarrow> spot_row list \<Rightarrow> fwdpts_row list \<Rightarrow> rr_row list
     \<Rightarrow> audjpy_week list" where
  "build_audjpy_df to_datetime spot_df fwdpts_df rr_df =
     audjpy_df (audjpy_fwd (audjpy_spot_w to_datetime spot_df) (audjpy_pts_w to_datetime fwdpts_df))
               (audjpy_rr_w to_datetime rr_df)"

definition fear_level :: "audjpy_week list \<Rightarrow> fval list" where
  "fear_level rows = map (\<lambda>r. fneg (AUDJPY_RR25D r)) rows"

definition MIN_EXPANDING_WEEKS :: nat where
  "MIN_EXPANDING_WEEKS = 52"

definition mean :: "real list \<Rightarrow> real" where
  "mean obs = sum_list obs / real (length obs)"

text \<open>The sample variance, with one degree of freedom taken off.\<close>

definition var_ddof1 :: "real list \<Rightarrow> real" where
  "var_ddof1 obs = (\<Sum>x\<leftarrow>obs. (x - mean obs)\<^sup>2) / (real (length obs) - 1)"

text \<open>
  \<open>.expanding(min_periods=m)\<close>: the window of row \<open>i\<close> is rows \<open>0 .. i\<close>; an aggregate
  is NaN while the window holds fewer than \<open>m\<close> observations, the mean also when it
  holds none and the standard deviation also when it holds one.
\<close>

definition expanding_mean :: "nat \<Rightarrow> fval list \<Rightarrow> fval list" where
  "expanding_mean m xs =
     map (\<lambda>i. let obs = List.map_filter prep_values (take (Suc i) xs)
               in if m \<le> length obs \<and> 0 < length obs then Fin (mean obs) else NaN)
         [0..<length xs]"

definition expanding_std :: "nat \<Rightarrow> fval list \<Rightarrow> fval list" where
  "expanding_std m xs =
     map (\<lambda>i. let obs = List.map_filter prep_values (take (Suc i) xs)
               in if m \<le> length obs \<and> 1 < length obs then Fin (sqrt (var_ddof1 obs)) else NaN)
         [0..<length xs]"

text \<open>\<open>fear_z = (fear_level - exp_mean) / exp_std\<close>\<close>

definition zscore :: "nat \<Rightarrow> fval list \<Rightarrow> fval list" where
  "zscore m xs =
     map (\<lambda>(x, mu, sd). fdiv (fsub x mu) sd)
         (zip xs (zip (expanding_mean m xs) (expanding_std m xs)))"

definition fear_z :: "nat \<Rightarrow> audjpy_week list \<Rightarrow> fval list" where
  "fear_z m rows = zscore m (fear_level rows)"

text \<open>\<open>.diff()\<close>: the first row is NaN, every other row is its cell minus the one before.\<close>

definition diff :: "fval list \<Rightarrow> fval list" where
  "diff xs = (if xs = [] then [] else NaN # map (\<lambda>(prev, cur). fsub cur prev) (zip xs (tl xs)))"

definition dfear :: "nat \<Rightarrow> audjpy_week list \<Rightarrow> fval list" where
  "dfear m rows = diff (fear_z m rows)"

section \<open>Weekly returns (step 5)\<close>

text \<open>\<open>.pct_change()\<close> of a column without NaN: the cell over the one before, minus one.\<close>

definition pct_change :: "fval list \<Rightarrow> fval list" where
  "pct_change xs =
     (if xs = [] then []
      else NaN # map (\<lambda>(prev, cur). fsub (fdiv cur prev) (Fin 1)) (zip xs (tl xs)))"

definition ret_spot_w :: "audjpy_week list \<Rightarrow> fval list" where
  "ret_spot_w rows = pct_change (map AUDJPY_spot rows)"

definition carry_yield_annual :: "audjpy_week list \<Rightarrow> fval list" where
  "carry_yield_annual rows =
     map (\<lambda>r. fmul (fdiv (fsub (AUDJPY_1M_forward r) (AUDJPY_spot r)) (AUDJPY_spot r)) (Fin 12)) rows"

definition ret_carry_w :: "audjpy_week list \<Rightarrow> fval list" where
  "ret_carry_w rows = map (\<lambda>c. fdiv c (Fin 52)) (carry_yield_annual rows)"

definition ret_total_w :: "audjpy_week list \<Rightarrow> fval list" where
  "ret_total_w rows = map (\<lambda>(s, c). fadd s c) (zip (ret_spot_w rows) (ret_carry_w rows))"

section \<open>Forward target return (step 6)\<close>

text \<open>Rows \<open>i - h + 1 .. i\<close> of a column: the trailing window of width \<open>h\<close> at row \<open>i\<close>.\<close>

definition window :: "nat \<Rightarrow> nat \<Rightarrow> 'a list \<Rightarrow> 'a list" where
  "window h i xs = drop (Suc i - h) (take (Suc i) xs)"

text \<open>\<open>.rolling(h).sum()\<close>: the minimum number of observations is the window width.\<close>

definition rolling_sum :: "nat \<Rightarrow> fval list \<Rightarrow> fval list" where
  "rolling_sum h xs =
     map (\<lambda>i. let obs = List.map_filter prep_values (window h i xs)
               in if h \<le> length obs then Fin (sum_list obs) else NaN)
         [0..<length xs]"

text \<open>\<open>.shift(k)\<close>: row \<open>i\<close> receives the value of row \<open>i - k\<close>, NaN when there is none.\<close>

definition shift :: "int \<Rightarrow> fval list \<Rightarrow> fval list" where
  "shift k xs =
     map (\<lambda>i. let j = int i - k
               in if 0 \<le> j \<and> j < int (length xs) then xs ! nat j else NaN)
         [0..<length xs]"

definition HORIZON_WEEKS :: nat where
  "HORIZON_WEEKS = 4"

text \<open>\<open>ret_total_w.rolling(h).sum().shift(-h+1)\<close>\<close>

definition ret_next_h :: "nat \<Rightarrow> fval list \<Rightarrow> fval list" where
  "ret_next_h h rets = shift (- int h + 1) (rolling_sum h rets)"

text \<open>
  Line 176: the four columns side by side, without the rows that have a NaN in any of
  them. Every column has one cell for every row of the table.
\<close>

record aligned_row =
  aligned_week :: date
  ret_w :: fval
  aligned_fear_z :: fval
  aligned_dfear :: fval
  aligned_ret_next_h :: fval

definition analysis_row :: "nat \<Rightarrow> nat \<Rightarrow> audjpy_week list \<Rightarrow> nat \<Rightarrow> aligned_row" where
  "analysis_row m h rows i =
     \<lparr>aligned_week = week (rows ! i), ret_w = ret_total_w rows ! i,
      aligned_fear_z = fear_z m rows ! i, aligned_dfear = dfear m rows ! i,
      aligned_ret_next_h = ret_next_h h (ret_total_w rows) ! i\<rparr>"

definition notna_row :: "aligned_row \<Rightarrow> bool" where
  "notna_row r \<longleftrightarrow>
     \<not> isna (ret_w r) \<and> \<not> isna (aligned_fear_z r) \<and> \<not> isna (aligned_dfear r)
     \<and> \<not> isna (aligned_ret_next_h r)"

text \<open>The positions of the rows that \<open>.dropna()\<close> keeps, and the rows kept.\<close>

definition aligned_index :: "nat \<Rightarrow> nat \<Rightarrow> audjpy_week list \<Rightarrow> nat list" where
  "aligned_index m h rows =
     filter (\<lambda>i. notna_row (analysis_row m h rows i)) [0..<length rows]"

definition aligned :: "nat \<Rightarrow> nat \<Rightarrow> audjpy_week list \<Rightarrow> aligned_row list" where
  "aligned m h rows = map (analysis_row m h rows) (aligned_index m h rows)"

section \<open>Event study (step 7)\<close>

text \<open>
  The change-in-fear column of the aligned table is taken with finite cells. The
  quantile interpolates linearly between the two order statistics around position
  \<open>q * (N - 1)\<close>; it is NaN for an empty column.
\<close>

definition WARNING_QUANTILE :: real where
  "WARNING_QUANTILE = 0.10"

definition quantile :: "real \<Rightarrow> real list \<Rightarrow> fval" where
  "quantile q xs =
     (if xs = [] then NaN
      else let s = sort xs; pos = q * real (length xs - 1); lo = nat \<lfloor>pos\<rfloor>;
               hi = min (lo + 1) (length xs - 1); g = pos - real lo
           in Fin (s ! lo + (s ! hi - s ! lo) * g))"

text \<open>\<open>x <= q\<close> on floats: false when \<open>q\<close> is NaN.\<close>

fun fle :: "real \<Rightarrow> fval \<Rightarrow> bool" where
  "fle x (Fin q) = (x \<le> q)"
| "fle x PInf = True"
| "fle x _ = False"

definition warning_mask :: "real list \<Rightarrow> bool list" where
  "warning_mask xs = map (\<lambda>x. fle x (quantile WARNING_QUANTILE xs)) xs"

definition warning_count :: "real list \<Rightarrow> nat" where
  "warning_count xs = length (filter id (warning_mask xs))"

section \<open>Sample tables\<close>

text \<open>
  A parser for the sample tables: five days of January 1970 in ISO format, every other
  text being unparseable.
\<close>

definition sample_to_datetime :: "string list \<Rightarrow> date option list" where
  "sample_to_datetime =
     map (map_of [(''1970-01-01'', 0), (''1970-01-02'', 1), (''1970-01-08'', 7),
                  (''1970-01-09'', 8), (''1970-01-16'', 15)])"

text \<open>
  Spot prices on two Fridays two weeks apart; on the first row the two date columns
  disagree.
\<close>

definition ex_spot :: "spot_row list" where
  "ex_spot =
     [\<lparr>AUDUSD_Date = ''1970-01-02'', AUDUSD = Fin 0.65,
       USDJPY_Date = ''1970-01-01'', USDJPY = Fin 150.0\<rparr>,
      \<lparr>AUDUSD_Date = ''1970-01-16'', AUDUSD = Fin 0.66,
       USDJPY_Date = ''1970-01-16'', USDJPY = Fin 150.0\<rparr>]"

text \<open>Forward points; the second week ends on a zero quote.\<close>

definition ex_fwd :: "fwdpts_row list" where
  "ex_fwd =
     [\<lparr>fwd_Date = ''1970-01-02'', fwd_points_pips = Fin (- 54.31)\<rparr>,
      \<lparr>fwd_Date = ''1970-01-08'', fwd_points_pips = Fin (- 50)\<rparr>,
      \<lparr>fwd_Date = ''1970-01-09'', fwd_points_pips = Fin 0\<rparr>,
      \<lparr>fwd_Date = ''1970-01-16'', fwd_points_pips = Fin (- 50)\<rparr>]"

definition ex_rr :: "rr_row list" where
  "ex_rr =
     [\<lparr>rr_Date = ''1970-01-02'', rr_value = Fin (- 2)\<rparr>,
      \<lparr>rr_Date = ''1970-01-16'', rr_value = Fin (- 2)\<rparr>]"

definition ex_week1 :: audjpy_week where
  "ex_week1 =
     \<lparr>week = 1, AUDJPY_spot = Fin 97.5, AUDJPY_1M_points_pips = Fin (- 54.31),
      AUDJPY_1M_points_price = Fin (- 0.5431), AUDJPY_1M_forward = Fin 96.9569,
      AUDJPY_RR25D = Fin (- 2)\<rparr>"

definition ex_week15 :: audjpy_week where
  "ex_week15 =
     \<lparr>week = 15, AUDJPY_spot = Fin 99, AUDJPY_1M_points_pips = Fin (- 50),
      AUDJPY_1M_points_price = Fin (- 0.5), AUDJPY_1M_forward = Fin 98.5,
      AUDJPY_RR25D = Fin (- 2)\<rparr>"

text \<open>The forward points with every zero already turned into the missing marker.\<close>

definition ex_fwd_blank :: "fwdpts_row list" where
  "ex_fwd_blank = map (\<lambda>r. r\<lparr>fwd_points_pips := replace_zero (fwd_points_pips r)\<rparr>) ex_fwd"

text \<open>
  Seven weeks of the merged table with a flat spot and forward, the risk reversal being
  -2 except for an infinite quote in the third and in the fourth week.
\<close>

definition ex_quote_week :: "date \<Rightarrow> fval \<Rightarrow> audjpy_week" where
  "ex_quote_week w q =
     \<lparr>week = w, AUDJPY_spot = Fin 100, AUDJPY_1M_points_pips = Fin (- 50),
      AUDJPY_1M_points_price = Fin (- 0.5), AUDJPY_1M_forward = Fin 99.5,
      AUDJPY_RR25D = q\<rparr>"

definition ex_inf_rows :: "audjpy_week list" where
  "ex_inf_rows =
     [ex_quote_week 1 (Fin (- 2)), ex_quote_week 8 (Fin (- 2)), ex_quote_week 15 NInf,
      ex_quote_week 22 PInf, ex_quote_week 29 (Fin (- 2)), ex_quote_week 36 (Fin (- 2)),
      ex_quote_week 43 (Fin (- 2))]"

section \<open>The sample tables through the builders\<close>

lemma ex_spot_daily:
  "spot_daily sample_to_datetime ex_spot = [(Some 1, Fin 97.5), (Some 15, Fin 99)]"
  by code_simp

lemma ex_spot_weekly:
  "audjpy_spot_w sample_to_datetime ex_spot = [(1, Fin 97.5), (8, NaN), (15, Fin 99)]"
  by code_simp

lemma ex_pts_resampled:
  "resample_last (drop_duplicates (sort_values (fwdpts_dated sample_to_datetime ex_fwd)))
     = [(1, Fin (- 54.31)), (8, Fin 0), (15, Fin (- 50))]"
  by code_simp

lemma ex_pts_weekly:
  "audjpy_pts_w sample_to_datetime ex_fwd = [(1, Fin (- 54.31)), (8, NaN), (15, Fin (- 50))]"
  by code_simp

lemma ex_build:
  "build_audjpy_df sample_to_datetime ex_spot ex_fwd ex_rr = [ex_week1, ex_week15]"
  by code_simp

section \<open>The forward target is a sum that starts at the current week\<close>

lemma map_filter_prep_Fin: "List.map_filter prep_values (map Fin ys) = ys"
  by (induction ys) (simp_all add: List.map_filter_simps)

lemma rolling_sum_nth:
  assumes "i < length rs" "h \<le> Suc i"
  shows "rolling_sum h (map Fin rs) ! i = Fin (sum_list (take h (drop (Suc i - h) rs)))"
proof -
  have w: "window h i (map Fin rs) = map Fin (take h (drop (Suc i - h) rs))"
    using assms by (simp add: window_def drop_map take_map drop_take)
  have "length (take h (drop (Suc i - h) rs)) = h"
    using assms by simp
  then show ?thesis
    using assms by (simp add: rolling_sum_def w map_filter_prep_Fin del: length_take)
qed

text \<open>
  With finite returns, the target of week \<open>t\<close> is the sum of the \<open>h\<close> returns of the
  weeks \<open>t, t + 1, \<dots>, t + h - 1\<close>.
\<close>

lemma ret_next_h_window:
  assumes "0 < h" "t + h \<le> length rs"
  shows "ret_next_h h (map Fin rs) ! t = Fin (sum_list (take h (drop t rs)))"
proof -
  have len: "length (rolling_sum h (map Fin rs)) = length rs"
    by (simp add: rolling_sum_def)
  have t: "t < length rs" using assms by simp
  have j: "nat (int t - (- int h + 1)) = t + h - 1" "0 \<le> int t - (- int h + 1)"
    "int t - (- int h + 1) < int (length rs)"
    using assms by auto
  have "ret_next_h h (map Fin rs) ! t = rolling_sum h (map Fin rs) ! (t + h - 1)"
    unfolding ret_next_h_def shift_def using t j by (simp add: len Let_def)
  also have "\<dots> = Fin (sum_list (take h (drop (Suc (t + h - 1) - h) rs)))"
    using assms by (intro rolling_sum_nth) auto
  also have "Suc (t + h - 1) - h = t" using assms by simp
  finally show ?thesis .
qed

text \<open>
  C1. The claim is that the target attached to week \<open>t\<close> is the sum of the returns of the
  weeks \<open>t + 1 \<dots> t + H\<close>, as the comment above the computation says. On the returns
  \<open>0.01, -0.02, 0.03, 0.00, 0.015\<close> with horizon 4 the computation gives week 0 the sum
  of the returns of weeks 0 to 3, which is \<open>0.02\<close>, and not the sum of the returns of
  weeks 1 to 4, which is \<open>0.025\<close>: the shift is one position short. It is the same
  behind the missing first return that the percentage change leaves.
\<close>

theorem ret_next_h_week0_sums_weeks_0_to_3:
  "ret_next_h HORIZON_WEEKS [Fin 0.01, Fin (- 0.02), Fin 0.03, Fin 0, Fin 0.015] ! 0
     = Fin (0.01 + (- 0.02) + 0.03 + 0)
   \<and> ret_next_h HORIZON_WEEKS [Fin 0.01, Fin (- 0.02), Fin 0.03, Fin 0, Fin 0.015] ! 0
     \<noteq> Fin ((- 0.02) + 0.03 + 0 + 0.015)
   \<and> ret_next_h HORIZON_WEEKS [NaN, Fin 0.01, Fin (- 0.02), Fin 0.03, Fin 0, Fin 0.015] ! 1
     = Fin (0.01 + (- 0.02) + 0.03 + 0)"
  by (simp add: ret_next_h_def HORIZON_WEEKS_def shift_def rolling_sum_def window_def
      List.map_filter_simps)

section \<open>Sorting, deduplication and resampling keep the observations apart\<close>

lemma set_insort_date: "set (insort_date r xs) = insert r (set xs)"
  by (induction xs) auto

lemma set_sort_values: "set (sort_values rows) = set rows"
  unfolding sort_values_def by (induction rows) (simp_all add: set_insort_date)

lemma drop_dups_subset: "set (drop_dups seen rows) \<subseteq> set rows"
  by (induction rows arbitrary: seen) auto

lemma fst_drop_dups: "fst ` set (drop_dups seen rows) = fst ` set rows - set seen"
  by (induction rows arbitrary: seen) (auto simp: image_iff)

lemma drop_duplicates_subset: "set (drop_duplicates rows) \<subseteq> set rows"
  by (simp add: drop_duplicates_def drop_dups_subset)

lemma fst_drop_duplicates: "fst ` set (drop_duplicates rows) = fst ` set rows"
  by (simp add: drop_duplicates_def fst_drop_dups)

lemma last_valid_cases: "last_valid xs = NaN \<or> last_valid xs \<in> set xs"
  by (induction xs) auto

lemma isna_iff: "isna v \<longleftrightarrow> v = NaN"
  by (cases v) auto

lemma last_valid_mem: "\<not> isna (last_valid xs) \<Longrightarrow> last_valid xs \<in> set xs"
  using last_valid_cases [of xs] by (auto simp: isna_iff)

lemma resample_last_cell:
  assumes "(w, v) \<in> set (resample_last rows)"
  shows "v = last_valid (bin_rows w rows)"
  using assms by (auto simp: resample_last_def Let_def split: if_splits)

lemma resample_last_observed:
  assumes "(w, v) \<in> set (resample_last rows)" "\<not> isna v"
  shows "\<exists>d. (Some d, v) \<in> set rows \<and> week_label d = w"
proof -
  have "v \<in> set (bin_rows w rows)"
    using resample_last_cell [OF assms(1)] assms(2) last_valid_mem by metis
  then obtain r where "r \<in> set rows" "map_option week_label (fst r) = Some w" "snd r = v"
    by (auto simp: bin_rows_def)
  moreover from this obtain d where "fst r = Some d" "week_label d = w" by auto
  ultimately have "(Some d, v) \<in> set rows \<and> week_label d = w"
    by (metis prod.collapse)
  then show ?thesis ..
qed

lemma weekly_observed:
  assumes "(w, v) \<in> set (resample_last (drop_duplicates (sort_values rows)))" "\<not> isna v"
  shows "\<exists>d. (Some d, v) \<in> set rows \<and> week_label d = w"
  using resample_last_observed [OF assms] drop_duplicates_subset set_sort_values by blast

lemma spot_daily_row:
  assumes "(d, v) \<in> set (spot_daily td spot_df)"
  shows "\<exists>i<length spot_df. d = td (map AUDUSD_Date spot_df) ! i
           \<and> v = fmul (AUDUSD (spot_df ! i)) (USDJPY (spot_df ! i))"
proof -
  from assms obtain a u where "(d, a, u) \<in> set (spot_dated td spot_df)" "v = fmul a u"
    by (auto simp: spot_daily_def AUDJPY_spot_col_def spot_dropna_def)
  then obtain r where "(d, r) \<in> set (zip (td (map AUDUSD_Date spot_df)) spot_df)"
     "a = AUDUSD r" "u = USDJPY r"
    by (auto simp: spot_dated_def)
  then show ?thesis using \<open>v = fmul a u\<close>
    by (auto simp: in_set_zip)
qed

lemma set_map_filter: "set (List.map_filter f xs) = {y. \<exists>x\<in>set xs. f x = Some y}"
  by (induction xs) (auto simp: List.map_filter_simps split: option.splits)

lemma set_join_inner:
  "set (join_inner key l r) = {(a, b). a \<in> set l \<and> map_of r (key a) = Some b}"
  by (auto simp: join_inner_def set_map_filter)

lemma week_label_mod: "week_label d mod 7 = 1"
  unfolding week_label_def by presburger

lemma week_label_mono: "d \<le> d' \<Longrightarrow> week_label d \<le> week_label d'"
  unfolding week_label_def by presburger

lemma set_map_filter_fst: "set (List.map_filter fst rows) = {d. \<exists>v. (Some d, v) \<in> set rows}"
  by (force simp: set_map_filter)

lemma resample_last_weeks:
  assumes "(Some d1, v1) \<in> set rows" "(Some d2, v2) \<in> set rows"
    and "week_label d1 \<le> w" "w \<le> week_label d2" "w mod 7 = 1"
  shows "w \<in> fst ` set (resample_last rows)"
proof -
  define ds where "ds = List.map_filter fst rows"
  define first where "first = week_label (Min (set ds))"
  define final where "final = week_label (Max (set ds))"
  have mem: "d1 \<in> set ds" "d2 \<in> set ds"
    using assms(1,2) by (auto simp: ds_def set_map_filter_fst)
  then have ne: "ds \<noteq> []" by auto
  have "Min (set ds) \<le> d1" "d2 \<le> Max (set ds)"
    using mem by simp_all
  then have lo: "first \<le> w" and hi: "w \<le> final"
    using assms(3,4) week_label_mono unfolding first_def final_def by force+
  define k where "k = nat ((w - first) div 7)"
  have fm: "first mod 7 = 1" "final mod 7 = 1"
    by (simp_all add: first_def final_def week_label_mod)
  have "(w - first) mod 7 = 0"
    using fm(1) assms(5) by presburger
  moreover have "int k = (w - first) div 7"
    using lo by (simp add: k_def)
  ultimately have wk: "w = first + 7 * int k"
    by presburger
  have "k < Suc (nat ((final - first) div 7))"
    using lo hi unfolding k_def by (simp add: nat_le_iff zdiv_mono1 less_Suc_eq_le nat_mono)
  then have kin: "k \<in> set [0..<Suc (nat ((final - first) div 7))]"
    by (simp del: upt_Suc)
  have rs: "resample_last rows =
      map (\<lambda>k. (first + 7 * int k, last_valid (bin_rows (first + 7 * int k) rows)))
          [0..<Suc (nat ((final - first) div 7))]"
    using ne by (simp add: resample_last_def ds_def first_def final_def Let_def)
  have "fst ` set (resample_last rows) = (\<lambda>k. first + 7 * int k) ` set [0..<Suc (nat ((final - first) div 7))]"
    unfolding rs by (simp add: image_image del: upt_Suc)
  then have "w \<in> fst ` set (resample_last rows)"
    using kin wk by blast
  then show ?thesis .
qed

lemma weekly_rows_between:
  assumes "(Some d1, v1) \<in> set rows" "(Some d2, v2) \<in> set rows"
    and "week_label d1 \<le> w" "w \<le> week_label d2" "w mod 7 = 1"
  shows "w \<in> fst ` set (resample_last (drop_duplicates (sort_values rows)))"
proof -
  have "fst ` set (drop_duplicates (sort_values rows)) = fst ` set rows"
    by (simp add: fst_drop_duplicates set_sort_values)
  then have "Some d1 \<in> fst ` set (drop_duplicates (sort_values rows))"
    "Some d2 \<in> fst ` set (drop_duplicates (sort_values rows))"
    using assms(1,2) by force+
  then obtain x1 x2 where "(Some d1, x1) \<in> set (drop_duplicates (sort_values rows))"
    "(Some d2, x2) \<in> set (drop_duplicates (sort_values rows))"
    by auto
  then show ?thesis using resample_last_weeks assms(3-5) by blast
qed

lemma audjpy_df_row:
  assumes "r \<in> set (audjpy_df fwd rr_w)"
  shows "\<exists>f v. f \<in> set fwd \<and> map_of rr_w (week f) = Some v \<and> r = with_rr (f, v)
           \<and> \<not> isna (AUDJPY_spot r) \<and> \<not> isna (AUDJPY_1M_forward r) \<and> \<not> isna (AUDJPY_RR25D r)"
  using assms by (auto simp: audjpy_df_def set_join_inner)

lemma audjpy_fwd_row:
  assumes "f \<in> set (audjpy_fwd spot_w pts_w)"
  shows "\<exists>w s p. (w, s) \<in> set spot_w \<and> (w, p) \<in> set pts_w \<and> f = forward_row ((w, s), p)"
  using assms by (auto simp: audjpy_fwd_def set_join_inner) (blast dest: map_of_SomeD)

lemma build_audjpy_df_row:
  assumes "r \<in> set (build_audjpy_df td spot_df fwdpts_df rr_df)"
  shows "\<exists>p v. (week r, AUDJPY_spot r) \<in> set (audjpy_spot_w td spot_df)
           \<and> (week r, p) \<in> set (audjpy_pts_w td fwdpts_df)
           \<and> (week r, v) \<in> set (audjpy_rr_w td rr_df)
           \<and> r = with_rr (forward_row ((week r, AUDJPY_spot r), p), v)
           \<and> \<not> isna (AUDJPY_spot r) \<and> \<not> isna (AUDJPY_1M_forward r) \<and> \<not> isna v"
proof -
  from audjpy_df_row [OF assms [unfolded build_audjpy_df_def]]
  obtain f v where f: "f \<in> set (audjpy_fwd (audjpy_spot_w td spot_df) (audjpy_pts_w td fwdpts_df))"
    and v: "map_of (audjpy_rr_w td rr_df) (week f) = Some v" and r: "r = with_rr (f, v)"
    and na: "\<not> isna (AUDJPY_spot r)" "\<not> isna (AUDJPY_1M_forward r)" "\<not> isna (AUDJPY_RR25D r)"
    by blast
  from audjpy_fwd_row [OF f] obtain w s p where
    wsp: "(w, s) \<in> set (audjpy_spot_w td spot_df)" "(w, p) \<in> set (audjpy_pts_w td fwdpts_df)"
      "f = forward_row ((w, s), p)"
    by blast
  have "week r = w" "AUDJPY_spot r = s" "AUDJPY_RR25D r = v"
    using r wsp(3) by (simp_all add: with_rr_def forward_row_def Let_def)
  then show ?thesis
    using wsp r v na by (auto dest: map_of_SomeD simp: forward_row_def with_rr_def Let_def)
qed

lemma fadd_notna: "\<not> isna (fadd a b) \<Longrightarrow> \<not> isna b"
  by (cases a; cases b) auto

lemma fdiv_notna: "\<not> isna (fdiv a b) \<Longrightarrow> \<not> isna a"
  by (cases a; cases b) auto


section \<open>Spot builder\<close>

lemma spot_dated_USDJPY_Date:
  "spot_dated td (map (\<lambda>r. r\<lparr>USDJPY_Date := f r\<rparr>) spot_df) = spot_dated td spot_df"
  by (simp add: spot_dated_def zip_map2 comp_def case_prod_unfold)


text \<open>
  C6. Every value of the weekly spot series that is not missing is the product of the
  AUDUSD price and the USDJPY price of one row of the spot table; the product of two
  finite prices is their product as numbers, and for AUDUSD = 0.65 and USDJPY = 150.0
  it is 97.5.
\<close>

theorem AUDJPY_spot_is_product_of_prices:
  assumes "(w, v) \<in> set (audjpy_spot_w td spot_df)" "\<not> isna v"
  shows "(\<exists>r\<in>set spot_df. v = fmul (AUDUSD r) (USDJPY r))
    \<and> fmul (Fin a) (Fin u) = Fin (a * u)
    \<and> fmul (Fin 0.65) (Fin 150.0) = Fin 97.5"
proof -
  obtain d where "(Some d, v) \<in> set (spot_daily td spot_df)"
    using weekly_observed assms unfolding audjpy_spot_w_def by blast
  from spot_daily_row [OF this] have "\<exists>r\<in>set spot_df. v = fmul (AUDUSD r) (USDJPY r)"
    by auto
  then show ?thesis by simp
qed

theorem AUDJPY_spot_is_product_of_prices_witness:
  "(1, Fin 97.5) \<in> set (audjpy_spot_w sample_to_datetime ex_spot) \<and> \<not> isna (Fin 97.5)
   \<and> (\<exists>r\<in>set ex_spot. Fin 97.5 = fmul (AUDUSD r) (USDJPY r))"
proof -
  have m: "(1, Fin 97.5) \<in> set (audjpy_spot_w sample_to_datetime ex_spot)"
    by (simp add: ex_spot_weekly)
  have n: "\<not> isna (Fin 97.5)" by simp
  from AUDJPY_spot_is_product_of_prices [OF m n] m n show ?thesis by blast
qed

text \<open>
  C10. The spot builder does not read the USDJPY date column: whatever is written in
  it, the weekly spot series is the same. Every row of the daily cross rate carries the
  date parsed from the AUDUSD date column at some row position and the product of the
  two prices at that same position.
\<close>

theorem spot_rows_paired_by_position:
  "audjpy_spot_w td (map (\<lambda>r. r\<lparr>USDJPY_Date := f r\<rparr>) spot_df) = audjpy_spot_w td spot_df
   \<and> (\<forall>(d, v) \<in> set (spot_daily td spot_df).
        \<exists>i<length spot_df. d = td (map AUDUSD_Date spot_df) ! i
           \<and> v = fmul (AUDUSD (spot_df ! i)) (USDJPY (spot_df ! i)))"
  using spot_daily_row by (auto simp: audjpy_spot_w_def spot_daily_def spot_dated_USDJPY_Date)

theorem spot_rows_paired_by_position_witness:
  "(Some 1, Fin 97.5) \<in> set (spot_daily sample_to_datetime ex_spot)
   \<and> USDJPY_Date (ex_spot ! 0) \<noteq> AUDUSD_Date (ex_spot ! 0)
   \<and> (\<exists>i<length ex_spot. Some 1 = sample_to_datetime (map AUDUSD_Date ex_spot) ! i
         \<and> Fin 97.5 = fmul (AUDUSD (ex_spot ! i)) (USDJPY (ex_spot ! i)))"
proof -
  have m: "(Some 1, Fin 97.5) \<in> set (spot_daily sample_to_datetime ex_spot)"
    by (simp add: ex_spot_daily)
  have n: "USDJPY_Date (ex_spot ! 0) \<noteq> AUDUSD_Date (ex_spot ! 0)"
    by (simp add: ex_spot_def)
  from spot_rows_paired_by_position [of sample_to_datetime USDJPY_Date ex_spot] m
  have "\<exists>i<length ex_spot. Some 1 = sample_to_datetime (map AUDUSD_Date ex_spot) ! i
         \<and> Fin 97.5 = fmul (AUDUSD (ex_spot ! i)) (USDJPY (ex_spot ! i))"
    by fast
  with m n show ?thesis by blast
qed

text \<open>
  C5, as the code has it. The weekly spot series has a row for every Friday between the
  weeks of any two observations, also for a week without observation; a weekly value
  that is not missing is an observation of that same week, so a week without
  observation holds the missing marker and is not filled. The rows of the merged table,
  which drops the rows with a missing spot, are weeks with an observation.
\<close>

theorem spot_weekly_gap_rows_are_missing:
  "(\<forall>(w, v) \<in> set (audjpy_spot_w td spot_df).
      \<not> isna v \<longrightarrow> (\<exists>d. (Some d, v) \<in> set (spot_daily td spot_df) \<and> week_label d = w))
   \<and> (\<forall>(d1, v1) \<in> set (spot_daily td spot_df). \<forall>(d2, v2) \<in> set (spot_daily td spot_df).
        \<forall>a b w. d1 = Some a \<and> d2 = Some b \<and> week_label a \<le> w \<and> w \<le> week_label b \<and> w mod 7 = 1
          \<longrightarrow> w \<in> fst ` set (audjpy_spot_w td spot_df))
   \<and> (\<forall>r \<in> set (build_audjpy_df td spot_df fwdpts_df rr_df).
        \<exists>d. (Some d, AUDJPY_spot r) \<in> set (spot_daily td spot_df) \<and> week_label d = week r)"
proof (intro conjI)
  show "\<forall>(w, v) \<in> set (audjpy_spot_w td spot_df).
      \<not> isna v \<longrightarrow> (\<exists>d. (Some d, v) \<in> set (spot_daily td spot_df) \<and> week_label d = w)"
    using weekly_observed unfolding audjpy_spot_w_def by blast
  show "\<forall>(d1, v1) \<in> set (spot_daily td spot_df). \<forall>(d2, v2) \<in> set (spot_daily td spot_df).
        \<forall>a b w. d1 = Some a \<and> d2 = Some b \<and> week_label a \<le> w \<and> w \<le> week_label b \<and> w mod 7 = 1
          \<longrightarrow> w \<in> fst ` set (audjpy_spot_w td spot_df)"
    using weekly_rows_between unfolding audjpy_spot_w_def by blast
  show "\<forall>r \<in> set (build_audjpy_df td spot_df fwdpts_df rr_df).
        \<exists>d. (Some d, AUDJPY_spot r) \<in> set (spot_daily td spot_df) \<and> week_label d = week r"
  proof
    fix r assume "r \<in> set (build_audjpy_df td spot_df fwdpts_df rr_df)"
    from build_audjpy_df_row [OF this]
    have "(week r, AUDJPY_spot r) \<in> set (audjpy_spot_w td spot_df)" "\<not> isna (AUDJPY_spot r)"
      by blast+
    then show "\<exists>d. (Some d, AUDJPY_spot r) \<in> set (spot_daily td spot_df) \<and> week_label d = week r"
      using weekly_observed unfolding audjpy_spot_w_def by blast
  qed
qed


theorem spot_weekly_gap_rows_are_missing_witness:
  "(15, Fin 99) \<in> set (audjpy_spot_w sample_to_datetime ex_spot) \<and> \<not> isna (Fin 99)
   \<and> (\<exists>d. (Some d, Fin 99) \<in> set (spot_daily sample_to_datetime ex_spot) \<and> week_label d = 15)
   \<and> (Some 1, Fin 97.5) \<in> set (spot_daily sample_to_datetime ex_spot)
   \<and> (Some 15, Fin 99) \<in> set (spot_daily sample_to_datetime ex_spot)
   \<and> week_label 1 \<le> 8 \<and> 8 \<le> week_label 15 \<and> (8::int) mod 7 = 1
   \<and> 8 \<in> fst ` set (audjpy_spot_w sample_to_datetime ex_spot)
   \<and> ex_week15 \<in> set (build_audjpy_df sample_to_datetime ex_spot ex_fwd ex_rr)
   \<and> (\<exists>d. (Some d, AUDJPY_spot ex_week15) \<in> set (spot_daily sample_to_datetime ex_spot)
         \<and> week_label d = week ex_week15)"
proof -
  note t = spot_weekly_gap_rows_are_missing [of sample_to_datetime ex_spot ex_fwd ex_rr]
  have m1: "(15, Fin 99) \<in> set (audjpy_spot_w sample_to_datetime ex_spot)" "\<not> isna (Fin 99)"
    by (simp_all add: ex_spot_weekly)
  have m2: "(Some 1, Fin 97.5) \<in> set (spot_daily sample_to_datetime ex_spot)"
    "(Some 15, Fin 99) \<in> set (spot_daily sample_to_datetime ex_spot)"
    by (simp_all add: ex_spot_daily)
  have m3: "week_label 1 \<le> 8" "8 \<le> week_label 15" "(8::int) mod 7 = 1"
    by (simp_all add: week_label_def)
  have m4: "ex_week15 \<in> set (build_audjpy_df sample_to_datetime ex_spot ex_fwd ex_rr)"
    by (simp add: ex_build)
  have c1: "\<exists>d. (Some d, Fin 99) \<in> set (spot_daily sample_to_datetime ex_spot) \<and> week_label d = 15"
    using t m1 by fast
  have c2: "8 \<in> fst ` set (audjpy_spot_w sample_to_datetime ex_spot)"
    using t m2 m3 by fast
  have c3: "\<exists>d. (Some d, AUDJPY_spot ex_week15) \<in> set (spot_daily sample_to_datetime ex_spot)
         \<and> week_label d = week ex_week15"
    using t m4 by fast
  show ?thesis using m1 m2 m3 m4 c1 c2 c3 by blast
qed

text \<open>
  C5, as the claim has it, fails: with spot prices on two Fridays two weeks apart the
  weekly series has three rows, and the one in the middle is a week in which nothing
  was observed.
\<close>

theorem spot_weekly_has_gap_row:
  "audjpy_spot_w sample_to_datetime ex_spot = [(1, Fin 97.5), (8, NaN), (15, Fin 99)]
   \<and> map fst (spot_daily sample_to_datetime ex_spot) = [Some 1, Some 15]
   \<and> week_label 1 = 1 \<and> week_label 15 = 15"
  by (simp add: ex_spot_weekly ex_spot_daily week_label_def)

section \<open>Forward builder\<close>

text \<open>
  C7. The rows of the joined table are exactly the weeks that the weekly spot series and
  the weekly points series both have; on each of them the points in price units are
  the points divided by 100 and the outright forward is the spot plus these. Points of
  -54.31 are -0.5431 in price units, and with a spot of 97.5 the forward is 96.9569.
\<close>

theorem forward_is_spot_plus_points_over_100:
  "set (audjpy_fwd spot_w pts_w) =
     (\<lambda>((w, s), p). \<lparr>week = w, AUDJPY_spot = s, AUDJPY_1M_points_pips = p,
          AUDJPY_1M_points_price = fdiv p (Fin 100),
          AUDJPY_1M_forward = fadd s (fdiv p (Fin 100))\<rparr>)
       ` {((w, s), p). (w, s) \<in> set spot_w \<and> map_of pts_w w = Some p}
   \<and> fdiv (Fin (- 54.31)) (Fin 100) = Fin (- 0.5431)
   \<and> map AUDJPY_1M_forward (audjpy_fwd [(1, Fin 97.5)] [(1, Fin (- 54.31))]) = [Fin 96.9569]"
proof -
  have "forward_row = (\<lambda>((w, s), p). \<lparr>week = w, AUDJPY_spot = s, AUDJPY_1M_points_pips = p,
          AUDJPY_1M_points_price = fdiv p (Fin 100),
          AUDJPY_1M_forward = fadd s (fdiv p (Fin 100))\<rparr>)"
    by (simp add: forward_row_def Let_def)
  moreover have "set (join_inner fst spot_w pts_w) = {((w, s), p). (w, s) \<in> set spot_w \<and> map_of pts_w w = Some p}"
    by (auto simp: set_join_inner)
  ultimately have "set (audjpy_fwd spot_w pts_w) =
     (\<lambda>((w, s), p). \<lparr>week = w, AUDJPY_spot = s, AUDJPY_1M_points_pips = p,
          AUDJPY_1M_points_price = fdiv p (Fin 100),
          AUDJPY_1M_forward = fadd s (fdiv p (Fin 100))\<rparr>)
       ` {((w, s), p). (w, s) \<in> set spot_w \<and> map_of pts_w w = Some p}"
    by (simp add: audjpy_fwd_def)
  moreover have "fdiv (Fin (- 54.31)) (Fin 100) = Fin (- 0.5431)" by simp
  moreover have "map AUDJPY_1M_forward (audjpy_fwd [(1, Fin 97.5)] [(1, Fin (- 54.31))]) = [Fin 96.9569]"
    by (simp add: audjpy_fwd_def join_inner_def List.map_filter_simps forward_row_def)
  ultimately show ?thesis by blast
qed



text \<open>
  C8, as the code has it. The zeros are replaced on the weekly series, after the last
  quote of each week has been selected: a week whose selected quote is exactly zero
  holds the missing marker, the weekly points series that enters the arithmetic holds
  no zero, and on every row of the merged table the forward is the spot plus a
  hundredth of points that are neither zero nor missing.
\<close>

theorem zero_points_are_missing:
  "(\<forall>(w, v) \<in> set (resample_last (drop_duplicates (sort_values (fwdpts_dated td fwdpts_df)))).
      v = Fin 0 \<longrightarrow> (w, NaN) \<in> set (audjpy_pts_w td fwdpts_df))
   \<and> (\<forall>(w, v) \<in> set (audjpy_pts_w td fwdpts_df). v \<noteq> Fin 0)
   \<and> (\<forall>r \<in> set (build_audjpy_df td spot_df fwdpts_df rr_df).
        AUDJPY_1M_points_pips r \<noteq> Fin 0 \<and> \<not> isna (AUDJPY_1M_points_pips r)
        \<and> AUDJPY_1M_forward r = fadd (AUDJPY_spot r) (fdiv (AUDJPY_1M_points_pips r) (Fin 100)))"
proof (intro conjI)
  show "\<forall>(w, v) \<in> set (resample_last (drop_duplicates (sort_values (fwdpts_dated td fwdpts_df)))).
      v = Fin 0 \<longrightarrow> (w, NaN) \<in> set (audjpy_pts_w td fwdpts_df)"
    by (force simp: audjpy_pts_w_def replace_zero_def)
  show nz: "\<forall>(w, v) \<in> set (audjpy_pts_w td fwdpts_df). v \<noteq> Fin 0"
    by (auto simp: audjpy_pts_w_def replace_zero_def split: if_splits)
  show "\<forall>r \<in> set (build_audjpy_df td spot_df fwdpts_df rr_df).
        AUDJPY_1M_points_pips r \<noteq> Fin 0 \<and> \<not> isna (AUDJPY_1M_points_pips r)
        \<and> AUDJPY_1M_forward r = fadd (AUDJPY_spot r) (fdiv (AUDJPY_1M_points_pips r) (Fin 100))"
  proof
    fix r assume "r \<in> set (build_audjpy_df td spot_df fwdpts_df rr_df)"
    from build_audjpy_df_row [OF this] obtain p v where
      p: "(week r, p) \<in> set (audjpy_pts_w td fwdpts_df)"
      and r: "r = with_rr (forward_row ((week r, AUDJPY_spot r), p), v)"
      and na: "\<not> isna (AUDJPY_1M_forward r)"
      by blast
    have pp: "AUDJPY_1M_points_pips r = p"
      and fw: "AUDJPY_1M_forward r = fadd (AUDJPY_spot r) (fdiv p (Fin 100))"
      by (subst r, simp add: with_rr_def forward_row_def Let_def)+
    have "p \<noteq> Fin 0" using nz p by blast
    moreover have "\<not> isna p" using na fw fadd_notna fdiv_notna by metis
    ultimately show "AUDJPY_1M_points_pips r \<noteq> Fin 0 \<and> \<not> isna (AUDJPY_1M_points_pips r)
        \<and> AUDJPY_1M_forward r = fadd (AUDJPY_spot r) (fdiv (AUDJPY_1M_points_pips r) (Fin 100))"
      using pp fw by simp
  qed
qed

theorem zero_points_are_missing_witness:
  "(8, Fin 0) \<in> set (resample_last (drop_duplicates (sort_values
        (fwdpts_dated sample_to_datetime ex_fwd))))
   \<and> (8, NaN) \<in> set (audjpy_pts_w sample_to_datetime ex_fwd)
   \<and> (1, Fin (- 54.31)) \<in> set (audjpy_pts_w sample_to_datetime ex_fwd)
   \<and> Fin (- 54.31) \<noteq> Fin 0
   \<and> ex_week1 \<in> set (build_audjpy_df sample_to_datetime ex_spot ex_fwd ex_rr)
   \<and> AUDJPY_1M_points_pips ex_week1 \<noteq> Fin 0
   \<and> AUDJPY_1M_forward ex_week1
       = fadd (AUDJPY_spot ex_week1) (fdiv (AUDJPY_1M_points_pips ex_week1) (Fin 100))
   \<and> map week (build_audjpy_df sample_to_datetime ex_spot ex_fwd ex_rr) = [1, 15]"
proof -
  note t = zero_points_are_missing [of sample_to_datetime ex_fwd ex_spot ex_rr]
  have m1: "(8, Fin 0) \<in> set (resample_last (drop_duplicates (sort_values
        (fwdpts_dated sample_to_datetime ex_fwd))))"
    by (simp add: ex_pts_resampled)
  have m2: "(1, Fin (- 54.31)) \<in> set (audjpy_pts_w sample_to_datetime ex_fwd)"
    by (simp add: ex_pts_weekly)
  have m3: "ex_week1 \<in> set (build_audjpy_df sample_to_datetime ex_spot ex_fwd ex_rr)"
    by (simp add: ex_build)
  have m4: "map week (build_audjpy_df sample_to_datetime ex_spot ex_fwd ex_rr) = [1, 15]"
    by (simp add: ex_build ex_week1_def ex_week15_def)
  have c1: "(8, NaN) \<in> set (audjpy_pts_w sample_to_datetime ex_fwd)"
    using t m1 by fast
  have c2: "Fin (- 54.31) \<noteq> Fin 0"
    using t m2 by fast
  have c3: "AUDJPY_1M_points_pips ex_week1 \<noteq> Fin 0
     \<and> AUDJPY_1M_forward ex_week1
       = fadd (AUDJPY_spot ex_week1) (fdiv (AUDJPY_1M_points_pips ex_week1) (Fin 100))"
    using t m3 by fast
  show ?thesis using m1 m2 m3 m4 c1 c2 c3 by blast
qed


text \<open>
  C8, as the claim has it, fails: a zero of the daily points series is not treated as a
  missing cell. The second week of the sample points ends on a zero after a quote of
  -50. The zero is selected as the last quote of the week and the week becomes missing;
  had the zero been a missing cell, the week would hold -50.
\<close>

theorem raw_zero_blanks_its_week:
  "map fwd_points_pips ex_fwd = [Fin (- 54.31), Fin (- 50), Fin 0, Fin (- 50)]
   \<and> map fwd_points_pips ex_fwd_blank = [Fin (- 54.31), Fin (- 50), NaN, Fin (- 50)]
   \<and> audjpy_pts_w sample_to_datetime ex_fwd = [(1, Fin (- 54.31)), (8, NaN), (15, Fin (- 50))]
   \<and> audjpy_pts_w sample_to_datetime ex_fwd_blank
       = [(1, Fin (- 54.31)), (8, Fin (- 50)), (15, Fin (- 50))]"
proof -
  have "map fwd_points_pips ex_fwd = [Fin (- 54.31), Fin (- 50), Fin 0, Fin (- 50)]"
    by (simp add: ex_fwd_def)
  moreover have
    "map fwd_points_pips ex_fwd_blank = [Fin (- 54.31), Fin (- 50), NaN, Fin (- 50)]"
    by (simp add: ex_fwd_blank_def ex_fwd_def replace_zero_def)
  moreover have
    "audjpy_pts_w sample_to_datetime ex_fwd_blank
       = [(1, Fin (- 54.31)), (8, Fin (- 50)), (15, Fin (- 50))]"
    by code_simp
  ultimately show ?thesis
    by (simp only: ex_pts_weekly simp_thms)
qed

section \<open>Expanding z-score\<close>


lemma length_expanding_mean: "length (expanding_mean m xs) = length xs"
  by (simp add: expanding_mean_def)

lemma length_expanding_std: "length (expanding_std m xs) = length xs"
  by (simp add: expanding_std_def)

lemma length_zscore: "length (zscore m xs) = length xs"
  by (simp add: zscore_def length_expanding_mean length_expanding_std)

lemma zscore_nth:
  assumes "t < length xs"
  shows "zscore m xs ! t = fdiv (fsub (xs ! t) (expanding_mean m xs ! t)) (expanding_std m xs ! t)"
  using assms by (simp add: zscore_def length_expanding_mean length_expanding_std)

lemma expanding_mean_nth:
  assumes "t < length xs"
  shows "expanding_mean m xs ! t =
    (let obs = List.map_filter prep_values (take (Suc t) xs)
     in if m \<le> length obs \<and> 0 < length obs then Fin (mean obs) else NaN)"
  using assms by (simp add: expanding_mean_def del: take_Suc)

lemma expanding_std_nth:
  assumes "t < length xs"
  shows "expanding_std m xs ! t =
    (let obs = List.map_filter prep_values (take (Suc t) xs)
     in if m \<le> length obs \<and> 1 < length obs then Fin (sqrt (var_ddof1 obs)) else NaN)"
  using assms by (simp add: expanding_std_def del: take_Suc)







lemma sum_sq_zero:
  assumes "(\<Sum>x\<leftarrow>obs. (x - c)\<^sup>2) = (0::real)" "y \<in> set obs"
  shows "y = c"
proof -
  have "\<forall>z \<in> set (map (\<lambda>x. (x - c)\<^sup>2) obs). 0 \<le> z" by auto
  then have "\<forall>z \<in> set (map (\<lambda>x. (x - c)\<^sup>2) obs). z = 0"
    using assms(1) sum_list_nonneg_eq_0_iff by blast
  then have "(y - c)\<^sup>2 = 0" using assms(2) by auto
  then show ?thesis by simp
qed

lemma prep_values_mem:
  assumes "i < length xs" "xs ! i = Fin x"
  shows "x \<in> set (List.map_filter prep_values xs)"
  using assms by (force simp: set_map_filter in_set_conv_nth)

lemma zscore_zero_std:
  assumes "t < length xs" "xs ! t = Fin x" "expanding_std m xs ! t = Fin 0"
  shows "zscore m xs ! t = NaN"
proof -
  define obs where "obs = List.map_filter prep_values (take (Suc t) xs)"
  have st: "m \<le> length obs" "1 < length obs" "sqrt (var_ddof1 obs) = 0"
    using assms(1,3) unfolding obs_def
    by (auto simp: expanding_std_nth Let_def simp del: take_Suc split: if_splits)
  then have "var_ddof1 obs = 0" by simp
  then have "(\<Sum>y\<leftarrow>obs. (y - mean obs)\<^sup>2) = 0"
    using st(2) by (simp add: var_ddof1_def)
  moreover have "x \<in> set obs"
    unfolding obs_def using assms(1,2) by (intro prep_values_mem [of t]) simp_all
  ultimately have "x = mean obs" by (rule sum_sq_zero)
  moreover have "obs \<noteq> []" using st(2) by auto
  then have "expanding_mean m xs ! t = Fin (mean obs)"
    using assms(1) st unfolding obs_def by (simp add: expanding_mean_nth Let_def del: take_Suc)
  ultimately show ?thesis
    using assms by (simp add: zscore_nth fsub_def inf_of_sign_def)
qed

text \<open>
  C9, as the code has it. When the expanding standard deviation is zero at a week whose
  quote is finite, the z-score of that week is the missing marker, not zero, and the
  week is not among the rows of the aligned table that feeds the event study and the
  regressions.
\<close>

theorem zero_std_gives_missing_zscore:
  assumes "t < length rows" "AUDJPY_RR25D (rows ! t) = Fin x"
    and "expanding_std m (fear_level rows) ! t = Fin 0"
  shows "fear_z m rows ! t = NaN \<and> fear_z m rows ! t \<noteq> Fin 0 \<and> t \<notin> set (aligned_index m h rows)"
proof -
  have "fear_level rows ! t = Fin (- x)" "t < length (fear_level rows)"
    using assms(1,2) by (simp_all add: fear_level_def)
  then have z: "fear_z m rows ! t = NaN"
    unfolding fear_z_def using assms(3) zscore_zero_std by blast
  then have "\<not> notna_row (analysis_row m h rows t)"
    by (simp add: notna_row_def analysis_row_def)
  then show ?thesis using z by (simp add: aligned_index_def)
qed




lemma ex_std_zero: "expanding_std 2 (fear_level [ex_week1, ex_week15]) ! 1 = Fin 0"
  by (simp add: expanding_std_def fear_level_def ex_week1_def ex_week15_def
      List.map_filter_simps var_ddof1_def mean_def)

theorem zero_std_gives_missing_zscore_witness:
  "1 < length (build_audjpy_df sample_to_datetime ex_spot ex_fwd ex_rr)
   \<and> AUDJPY_RR25D (build_audjpy_df sample_to_datetime ex_spot ex_fwd ex_rr ! 1) = Fin (- 2)
   \<and> expanding_std 2 (fear_level (build_audjpy_df sample_to_datetime ex_spot ex_fwd ex_rr)) ! 1 = Fin 0
   \<and> fear_z 2 (build_audjpy_df sample_to_datetime ex_spot ex_fwd ex_rr) ! 1 = NaN
   \<and> 1 \<notin> set (aligned_index 2 4 (build_audjpy_df sample_to_datetime ex_spot ex_fwd ex_rr))"
proof -
  have l: "1 < length [ex_week1, ex_week15]" by simp
  have r: "AUDJPY_RR25D ([ex_week1, ex_week15] ! 1) = Fin (- 2)"
    by (simp add: ex_week15_def)
  from zero_std_gives_missing_zscore [OF l r ex_std_zero, of 4] l r ex_std_zero show ?thesis
    unfolding ex_build by blast
qed

text \<open>
  The columns of the seven sample weeks with two infinite quotes, for a minimum of two
  observations.
\<close>

lemma ex_inf_fear: "fear_level ex_inf_rows = [Fin 2, Fin 2, PInf, NInf, Fin 2, Fin 2, Fin 2]"
  by (simp add: fear_level_def ex_inf_rows_def ex_quote_week_def)

lemma ex_inf_mean:
  "expanding_mean 2 [Fin 2, Fin 2, PInf, NInf, Fin 2, Fin 2, Fin 2]
     = [NaN, Fin 2, Fin 2, Fin 2, Fin 2, Fin 2, Fin 2]"
  by (simp add: expanding_mean_def List.map_filter_simps mean_def upt_rec)

lemma ex_inf_std:
  "expanding_std 2 [Fin 2, Fin 2, PInf, NInf, Fin 2, Fin 2, Fin 2]
     = [NaN, Fin 0, Fin 0, Fin 0, Fin 0, Fin 0, Fin 0]"
  by (simp add: expanding_std_def List.map_filter_simps mean_def var_ddof1_def upt_rec)

lemma ex_inf_z: "fear_z 2 ex_inf_rows = [NaN, NaN, PInf, NInf, NaN, NaN, NaN]"
  by (simp add: fear_z_def zscore_def ex_inf_fear ex_inf_mean ex_inf_std fsub_def inf_of_sign_def)

lemma ex_inf_dfear: "dfear 2 ex_inf_rows = [NaN, NaN, NaN, NInf, NaN, NaN, NaN]"
  by (simp add: dfear_def diff_def ex_inf_z fsub_def)

lemma ex_inf_ret:
  "ret_total_w ex_inf_rows
     = [NaN, Fin (- 3 / 2600), Fin (- 3 / 2600), Fin (- 3 / 2600), Fin (- 3 / 2600),
        Fin (- 3 / 2600), Fin (- 3 / 2600)]"
  by (simp add: ret_total_w_def ret_spot_w_def ret_carry_w_def carry_yield_annual_def
      pct_change_def ex_inf_rows_def ex_quote_week_def fsub_def)

lemma ex_inf_next:
  "ret_next_h HORIZON_WEEKS (ret_total_w ex_inf_rows)
     = [NaN, Fin (- 12 / 2600), Fin (- 12 / 2600), Fin (- 12 / 2600), NaN, NaN, NaN]"
  by (simp add: ex_inf_ret ret_next_h_def HORIZON_WEEKS_def shift_def rolling_sum_def window_def
      List.map_filter_simps upt_rec)

lemma ex_inf_aligned: "aligned_index 2 HORIZON_WEEKS ex_inf_rows = [3]"
proof -
  have len: "length ex_inf_rows = 7"
    by (simp add: ex_inf_rows_def)
  have idx: "[0..<7] = [0, 1, 2, 3, 4, 5, 6]"
    by (simp add: upt_rec)
  show ?thesis
    unfolding aligned_index_def len idx analysis_row_def ex_inf_next
    by (simp add: notna_row_def ex_inf_z ex_inf_dfear ex_inf_ret)
qed

text \<open>
  C9, as the claim has it, fails at a week whose quote is infinite. With the quotes
  -2, -2, -inf, +inf, -2, -2, -2 and a minimum of two observations, the window
  statistics leave the infinite quotes out, so the expanding standard deviation of the
  fourth week is zero; its fear level is minus infinity, its z-score is minus infinity
  and not the missing marker, and the fourth week is the one row of the aligned table.
\<close>

theorem infinite_quote_with_zero_std_stays_aligned:
  "map AUDJPY_RR25D ex_inf_rows = [Fin (- 2), Fin (- 2), NInf, PInf, Fin (- 2), Fin (- 2), Fin (- 2)]
   \<and> expanding_std 2 (fear_level ex_inf_rows) ! 3 = Fin 0
   \<and> fear_z 2 ex_inf_rows ! 3 = NInf
   \<and> aligned_index 2 HORIZON_WEEKS ex_inf_rows = [3]"
proof -
  have "map AUDJPY_RR25D ex_inf_rows
      = [Fin (- 2), Fin (- 2), NInf, PInf, Fin (- 2), Fin (- 2), Fin (- 2)]"
    by (simp add: ex_inf_rows_def ex_quote_week_def)
  moreover have "expanding_std 2 (fear_level ex_inf_rows) ! 3 = Fin 0"
    by (simp add: ex_inf_fear ex_inf_std)
  moreover have "fear_z 2 ex_inf_rows ! 3 = NInf"
    by (simp add: ex_inf_z)
  ultimately show ?thesis
    by (simp only: ex_inf_aligned simp_thms)
qed

section \<open>Warning weeks\<close>


lemma length_filter_insort:
  "length (filter P (insort x xs)) = length (filter P (x # xs))"
  by (induction xs) auto

lemma length_filter_sort: "length (filter P (sort xs)) = length (filter P xs)"
  by (induction xs) (simp_all add: length_filter_insort)

lemma count_le_ge:
  assumes "sorted s" "lo < length s" "s ! lo \<le> (v::real)"
  shows "Suc lo \<le> length (filter (\<lambda>x. x \<le> v) s)"
proof -
  have "\<forall>x \<in> set (take (Suc lo) s). x \<le> v"
  proof
    fix x assume "x \<in> set (take (Suc lo) s)"
    then obtain i where i: "i < Suc lo" "i < length s" "x = s ! i"
      by (auto simp: in_set_conv_nth)
    then have "s ! i \<le> s ! lo"
      using assms(1,2) by (intro sorted_nth_mono) auto
    then show "x \<le> v" using i assms(3) by simp
  qed
  then have "filter (\<lambda>x. x \<le> v) (take (Suc lo) s) = take (Suc lo) s"
    by (simp add: filter_id_conv)
  moreover have "filter (\<lambda>x. x \<le> v) s
      = filter (\<lambda>x. x \<le> v) (take (Suc lo) s) @ filter (\<lambda>x. x \<le> v) (drop (Suc lo) s)"
    by (metis append_take_drop_id filter_append)
  ultimately have "length (filter (\<lambda>x. x \<le> v) s) \<ge> length (take (Suc lo) s)"
    by simp
  then show ?thesis using assms(2) by simp
qed

lemma count_le_le:
  assumes "lo < length s" "\<forall>i. lo < i \<and> i < length s \<longrightarrow> (v::real) < s ! i"
  shows "length (filter (\<lambda>x. x \<le> v) s) \<le> Suc lo"
proof -
  have "\<forall>x \<in> set (drop (Suc lo) s). \<not> x \<le> v"
  proof
    fix x assume "x \<in> set (drop (Suc lo) s)"
    then obtain i where i: "i < length s - Suc lo" "x = s ! (Suc lo + i)"
      by (auto simp: in_set_conv_nth)
    then have "v < s ! (Suc lo + i)" using assms(2) by simp
    then show "\<not> x \<le> v" using i by simp
  qed
  then have "filter (\<lambda>x. x \<le> v) (drop (Suc lo) s) = []"
    by (simp add: filter_empty_conv)
  moreover have "filter (\<lambda>x. x \<le> v) s
      = filter (\<lambda>x. x \<le> v) (take (Suc lo) s) @ filter (\<lambda>x. x \<le> v) (drop (Suc lo) s)"
    by (metis append_take_drop_id filter_append)
  ultimately have "length (filter (\<lambda>x. x \<le> v) s) = length (filter (\<lambda>x. x \<le> v) (take (Suc lo) s))"
    by simp
  also have "\<dots> \<le> length (take (Suc lo) s)" by (rule length_filter_le)
  also have "\<dots> \<le> Suc lo" by simp
  finally show ?thesis .
qed

lemma warning_position:
  "nat \<lfloor>WARNING_QUANTILE * real k\<rfloor> = k div 10"
proof -
  have "WARNING_QUANTILE * real k = real k / real 10"
    by (simp add: WARNING_QUANTILE_def)
  then have "\<lfloor>WARNING_QUANTILE * real k\<rfloor> = int (k div 10)"
    by (simp only: floor_divide_of_nat_eq)
  then show ?thesis by simp
qed

lemma warning_count_filter:
  assumes "quantile WARNING_QUANTILE xs = Fin v"
  shows "warning_count xs = length (filter (\<lambda>x. x \<le> v) (sort xs))"
proof -
  have "filter id (map (\<lambda>x. fle x (Fin v)) xs) = map (\<lambda>x. fle x (Fin v)) (filter (\<lambda>x. x \<le> v) xs)"
    by (simp add: filter_map comp_def)
  then show ?thesis
    by (simp add: warning_count_def warning_mask_def assms length_filter_sort)
qed

lemma quantile_value:
  assumes "xs \<noteq> []"
  shows "quantile WARNING_QUANTILE xs =
     Fin (sort xs ! ((length xs - 1) div 10)
          + (sort xs ! min ((length xs - 1) div 10 + 1) (length xs - 1)
             - sort xs ! ((length xs - 1) div 10))
            * (real ((length xs - 1) mod 10) / 10))"
proof -
  define k where "k = length xs - 1"
  have lo: "nat \<lfloor>WARNING_QUANTILE * real k\<rfloor> = k div 10"
    by (rule warning_position)
  have eq: "real k = 10 * real (k div 10) + real (k mod 10)"
    by (metis mult_div_mod_eq of_nat_add of_nat_mult of_nat_numeral)
  have wq: "WARNING_QUANTILE = 1 / 10"
    by (simp add: WARNING_QUANTILE_def)
  have alg: "1 / 10 * (10 * a + b) - a = b / 10" for a b :: real
    by (simp add: field_simps)
  have "WARNING_QUANTILE * real k - real (k div 10)
      = 1 / 10 * (10 * real (k div 10) + real (k mod 10)) - real (k div 10)"
    by (simp only: wq) (simp only: eq [symmetric])
  then have g: "WARNING_QUANTILE * real k - real (k div 10) = real (k mod 10) / 10"
    by (simp only: alg)
  show ?thesis
    using assms unfolding quantile_def k_def [symmetric] Let_def lo g by simp
qed

lemma strictly_sorted_nth:
  assumes "sorted s" "distinct s" "i < j" "j < length s"
  shows "s ! i < (s ! j :: real)"
proof -
  have "s ! i \<le> s ! j" using assms by (intro sorted_nth_mono) auto
  moreover have "s ! i \<noteq> s ! j" using assms by (simp add: nth_eq_iff_index_eq)
  ultimately show ?thesis by simp
qed

lemma warning_count_lower:
  assumes "xs \<noteq> []"
  shows "Suc ((length xs - 1) div 10) \<le> warning_count xs"
proof -
  define s where "s = sort xs"
  define k where "k = length xs - 1"
  define lo where "lo = k div 10"
  define hi where "hi = min (lo + 1) k"
  define g where "g = real (k mod 10) / 10"
  define v where "v = s ! lo + (s ! hi - s ! lo) * g"
  have q: "quantile WARNING_QUANTILE xs = Fin v"
    unfolding v_def s_def lo_def hi_def g_def k_def by (rule quantile_value [OF assms])
  have n: "length s = Suc k" using assms by (simp add: s_def k_def)
  have lo: "lo < length s" "lo \<le> hi" "hi < length s"
    unfolding lo_def hi_def n by (simp_all add: less_Suc_eq_le)
  have "s ! lo \<le> s ! hi"
    using lo by (intro sorted_nth_mono) (simp_all add: s_def)
  moreover have "0 \<le> g" by (simp add: g_def)
  ultimately have "s ! lo \<le> v"
    by (simp add: v_def)
  then have "Suc lo \<le> length (filter (\<lambda>x. x \<le> v) s)"
    using lo(1) by (intro count_le_ge) (simp_all add: s_def)
  then show ?thesis
    unfolding warning_count_filter [OF q] s_def lo_def k_def .
qed

lemma warning_count_upper:
  assumes "xs \<noteq> []" "distinct xs"
  shows "warning_count xs \<le> Suc ((length xs - 1) div 10)"
proof -
  define s where "s = sort xs"
  define k where "k = length xs - 1"
  define lo where "lo = k div 10"
  define hi where "hi = min (lo + 1) k"
  define g where "g = real (k mod 10) / 10"
  define v where "v = s ! lo + (s ! hi - s ! lo) * g"
  have q: "quantile WARNING_QUANTILE xs = Fin v"
    unfolding v_def s_def lo_def hi_def g_def k_def by (rule quantile_value [OF assms(1)])
  have n: "length s = Suc k" using assms by (simp add: s_def k_def)
  have srt: "sorted s" "distinct s" using assms(2) by (simp_all add: s_def)
  have lo: "lo < length s"
    unfolding lo_def n by (simp add: less_Suc_eq_le)
  have above: "v < s ! i" if i: "lo < i" "i < length s" for i
  proof (cases "k mod 10 = 0")
    case True
    then have "v = s ! lo" by (simp add: v_def g_def)
    then show ?thesis using strictly_sorted_nth [OF srt i] by simp
  next
    case False
    then have "0 < k" by (cases k) auto
    then have "lo < k" unfolding lo_def by simp
    then have hi: "hi = Suc lo" by (simp add: hi_def)
    have gl: "0 \<le> g" "g < 1" by (simp_all add: g_def)
    have lt: "s ! lo < s ! hi"
      unfolding hi using \<open>lo < k\<close> n by (intro strictly_sorted_nth [OF srt]) simp_all
    have "(s ! hi - s ! lo) * g < (s ! hi - s ! lo) * 1"
      using lt gl by (intro mult_strict_left_mono) simp_all
    then have "v < s ! hi" by (simp add: v_def)
    moreover have "s ! hi \<le> s ! i"
      using i srt(1) unfolding hi by (intro sorted_nth_mono) simp_all
    ultimately show ?thesis by simp
  qed
  have "length (filter (\<lambda>x. x \<le> v) s) \<le> Suc lo"
    using lo above by (intro count_le_le) simp_all
  then show ?thesis
    unfolding warning_count_filter [OF q] s_def lo_def k_def .
qed

lemma floor_tenth: "nat \<lfloor>real n * WARNING_QUANTILE\<rfloor> = n div 10"
  using warning_position [of n] by (simp add: mult.commute)

lemma ceiling_tenth:
  assumes "0 < n"
  shows "Suc ((n - 1) div 10) \<le> nat \<lceil>real n * WARNING_QUANTILE\<rceil>"
proof -
  have "10 * ((n - 1) div 10) \<le> n - 1" by simp
  then have "10 * ((n - 1) div 10) < n" using assms by linarith
  then have "real (10 * ((n - 1) div 10)) < real n" by (simp only: of_nat_less_iff)
  then have "real_of_int (int ((n - 1) div 10)) < real n * WARNING_QUANTILE"
    by (simp add: WARNING_QUANTILE_def)
  then have "int ((n - 1) div 10) < \<lceil>real n * WARNING_QUANTILE\<rceil>"
    by (simp only: less_ceiling_iff)
  then show ?thesis by linarith
qed

text \<open>
  C3, as the code has it. Of \<open>N\<close> weeks, at least \<open>floor (N * 0.10)\<close> are warnings, and
  at most \<open>ceil (N * 0.10)\<close> are when the changes in fear are pairwise distinct.
\<close>

theorem warning_count_bounds:
  "nat \<lfloor>real (length xs) * WARNING_QUANTILE\<rfloor> \<le> warning_count xs
   \<and> (distinct xs \<longrightarrow> warning_count xs \<le> nat \<lceil>real (length xs) * WARNING_QUANTILE\<rceil>)"
proof (cases "xs = []")
  case True
  then show ?thesis by (simp add: warning_count_def warning_mask_def)
next
  case False
  then have pos: "0 < length xs" by simp
  have "length xs \<le> (length xs - 1) + 10" by simp
  then have "length xs div 10 \<le> ((length xs - 1) + 10) div 10"
    by (rule div_le_mono)
  then have "length xs div 10 \<le> Suc ((length xs - 1) div 10)"
    by simp
  then have lower: "nat \<lfloor>real (length xs) * WARNING_QUANTILE\<rfloor> \<le> warning_count xs"
    using warning_count_lower [OF False] by (simp only: floor_tenth)
  have upper: "warning_count xs \<le> nat \<lceil>real (length xs) * WARNING_QUANTILE\<rceil>" if "distinct xs"
    using warning_count_upper [OF False that] ceiling_tenth [OF pos] by (rule order_trans)
  show ?thesis using lower upper by blast
qed

theorem warning_count_bounds_witness:
  "distinct [11, 3, 5, 1, 9, 7, 2, 4, 6, 8, 10 :: real]
   \<and> nat \<lfloor>real (length [11, 3, 5, 1, 9, 7, 2, 4, 6, 8, 10 :: real]) * WARNING_QUANTILE\<rfloor>
       \<le> warning_count [11, 3, 5, 1, 9, 7, 2, 4, 6, 8, 10]
   \<and> warning_count [11, 3, 5, 1, 9, 7, 2, 4, 6, 8, 10]
       \<le> nat \<lceil>real (length [11, 3, 5, 1, 9, 7, 2, 4, 6, 8, 10 :: real]) * WARNING_QUANTILE\<rceil>"
proof -
  have d: "distinct [11, 3, 5, 1, 9, 7, 2, 4, 6, 8, 10 :: real]" by simp
  from warning_count_bounds [of "[11, 3, 5, 1, 9, 7, 2, 4, 6, 8, 10]"] d show ?thesis
    by blast
qed

text \<open>
  C3, as the claim has it, fails when changes in fear tie at the quantile: of the ten
  weeks \<open>1, 1, 2, 3, 4, 5, 6, 7, 8, 9\<close> the quantile is 1 and two weeks are warnings,
  where \<open>ceil (10 * 0.10)\<close> is one.
\<close>

theorem warning_count_with_ties:
  "warning_count [1, 1, 2, 3, 4, 5, 6, 7, 8, 9] = 2
   \<and> quantile WARNING_QUANTILE [1, 1, 2, 3, 4, 5, 6, 7, 8, 9] = Fin 1
   \<and> nat \<lceil>real (length [1, 1, 2, 3, 4, 5, 6, 7, 8, 9 :: real]) * WARNING_QUANTILE\<rceil> = 1"
proof -
  have "warning_count [1, 1, 2, 3, 4, 5, 6, 7, 8, 9] = 2"
    by code_simp
  moreover have "quantile WARNING_QUANTILE [1, 1, 2, 3, 4, 5, 6, 7, 8, 9] = Fin 1"
    by code_simp
  moreover have
    "nat \<lceil>real (length [1, 1, 2, 3, 4, 5, 6, 7, 8, 9 :: real]) * WARNING_QUANTILE\<rceil> = 1"
    by (simp add: WARNING_QUANTILE_def)
  ultimately show ?thesis by blast
qed

end
